theory Spec2Isabelle
  imports Main
begin

section \<open>JavaScript values as the handlers see them\<close>

text \<open>
  \<^verbatim>\<open>src/index.js\<close> holds two versions of the server one after the other: the current
  one (lines 1 to 201) and an earlier one (lines 203 to 395), which verified the storefront's
  signature over the re-serialised body, extracted the order id with a pattern of two
  groups and kept no refId map. What follows is the current version; of the earlier one
  the order-creation webhook has a section of its own.

  The handlers read fields of parsed JSON bodies and only ever test them for truthiness,
  compare them with a string, call a string method on them or convert them to a string. A
  field is therefore one of: absent (\<^verbatim>\<open>undefined\<close>), \<^verbatim>\<open>null\<close>, a string, or any
  other value \<open>JOther b r\<close>, of which only its truthiness \<open>b\<close> matters and, where a
  handler converts it to a string, its rendering \<open>r\<close>. The fields that the order
  handler converts come from the storefront's signed body, where they are strings, numbers
  or \<^verbatim>\<open>null\<close>, which all convert. Strings are byte lists; the prefix LIK and the
  digits are ASCII, so the pattern of the payment-result handler reads bytes as it reads
  JavaScript's characters.
\<close>

datatype jsval = JUndefined | JNull | JStr string | JOther bool string

fun truthy :: "jsval \<Rightarrow> bool" where
  "truthy JUndefined = False"
| "truthy JNull = False"
| "truthy (JStr s) = (s \<noteq> [])"
| "truthy (JOther b r) = b"

text \<open>\<^verbatim>\<open>String(v)\<close>, as a template literal and \<^verbatim>\<open>URLSearchParams\<close> apply it.\<close>

fun js_String :: "jsval \<Rightarrow> string" where
  "js_String JUndefined = ''undefined''"
| "js_String JNull = ''null''"
| "js_String (JStr s) = s"
| "js_String (JOther b r) = r"

text \<open>
  The payment-result route is open to any sender, and JSON can hold a value whose
  conversion to a string throws a TypeError: an object whose own \<^verbatim>\<open>toString\<close> is not
  callable, such as \<^verbatim>\<open>{"toString":1}\<close>, or an array that holds one. The two fields
  that the handler pastes into a template literal, \<^verbatim>\<open>utr\<close> and \<^verbatim>\<open>message\<close>, are
  therefore either a value that converts or one whose conversion throws; its other fields
  are never converted.
\<close>

datatype interpolated = Converts jsval | ConversionThrows

text \<open>\<^verbatim>\<open>a || b\<close>\<close>

definition js_or :: "jsval \<Rightarrow> jsval \<Rightarrow> jsval" where
  "js_or a b = (if truthy a then a else b)"

section \<open>The reference generator and the extraction of the order id\<close>

text \<open>
  \<^verbatim>\<open>Date.now()\<close> is a non-negative integer number of milliseconds; concatenated
  to a string it is written in decimal, without leading zeros.
\<close>

definition digit_char :: "nat \<Rightarrow> char" where
  "digit_char d = ''0123456789'' ! d"

fun string_of_nat :: "nat \<Rightarrow> string" where
  "string_of_nat n =
     (if n < 10 then [digit_char n]
      else string_of_nat (n div 10) @ [digit_char (n mod 10)])"

declare string_of_nat.simps [simp del]

text \<open>Line 74: \<^verbatim>\<open>const refId = 'LIK' + orderId + Date.now();\<close>\<close>

definition refId :: "string \<Rightarrow> nat \<Rightarrow> string" where
  "refId orderId now = ''LIK'' @ orderId @ string_of_nat now"

text \<open>
  Lines 131 and 132: \<^verbatim>\<open>order_id.match(/LIK(\d+)/)\<close> and its first group. The regular
  expression is tried at each position from the left; at a position it matches when the
  three characters LIK are followed by at least one of the digits 0 to 9, and the group,
  being greedy and last in the pattern, takes all the digits that follow.
\<close>

definition isDigit :: "char \<Rightarrow> bool" where
  "isDigit c = (c \<in> set ''0123456789'')"

definition lik_digits_at :: "string \<Rightarrow> string option" where
  "lik_digits_at s =
     (if take 3 s = ''LIK'' \<and> takeWhile isDigit (drop 3 s) \<noteq> []
      then Some (takeWhile isDigit (drop 3 s)) else None)"

fun orderIdMatch :: "string \<Rightarrow> string option" where
  "orderIdMatch [] = None"
| "orderIdMatch (c # cs) =
     (case lik_digits_at (c # cs) of
        Some d \<Rightarrow> Some d
      | None \<Rightarrow> orderIdMatch cs)"

text \<open>
  \<^verbatim>\<open>status.toUpperCase()\<close>, on the UTF-8 bytes of the string. Besides the ASCII letters,
  ten characters outside ASCII have an upper case written in ASCII letters only: sharp s
  (SS), long s (S), dotless i (I) and the seven ligatures from U+FB00 to U+FB06 (FF, FI, FL,
  FFI, FFL, ST, ST). They are listed with their UTF-8 bytes. Every other character outside
  ASCII has an upper case with a character outside ASCII in it; its bytes are left as they
  are, so that whether the result equals a word of ASCII letters is as in JavaScript.
\<close>

definition upper_char :: "char \<Rightarrow> char" where
  "upper_char c =
     (case map_of (zip ''abcdefghijklmnopqrstuvwxyz'' ''ABCDEFGHIJKLMNOPQRSTUVWXYZ'') c of
        Some u \<Rightarrow> u
      | None \<Rightarrow> c)"

definition special_casing :: "(string \<times> string) list" where
  "special_casing =
     [([CHR 0xC3, CHR 0x9F], ''SS''),
      ([CHR 0xC5, CHR 0xBF], ''S''),
      ([CHR 0xC4, CHR 0xB1], ''I''),
      ([CHR 0xEF, CHR 0xAC, CHR 0x80], ''FF''),
      ([CHR 0xEF, CHR 0xAC, CHR 0x81], ''FI''),
      ([CHR 0xEF, CHR 0xAC, CHR 0x82], ''FL''),
      ([CHR 0xEF, CHR 0xAC, CHR 0x83], ''FFI''),
      ([CHR 0xEF, CHR 0xAC, CHR 0x84], ''FFL''),
      ([CHR 0xEF, CHR 0xAC, CHR 0x85], ''ST''),
      ([CHR 0xEF, CHR 0xAC, CHR 0x86], ''ST'')]"

text \<open>The first listed character that the string starts with: its upper case and the rest.\<close>

fun special_at :: "(string \<times> string) list \<Rightarrow> string \<Rightarrow> (string \<times> string) option" where
  "special_at [] s = None"
| "special_at ((k, u) # table) s =
     (if k \<noteq> [] \<and> take (length k) s = k then Some (u, drop (length k) s)
      else special_at table s)"

function toUpperCase :: "string \<Rightarrow> string" where
  "toUpperCase [] = []"
| "toUpperCase (c # cs) =
     (case special_at special_casing (c # cs) of
        Some (u, rest) \<Rightarrow> u @ toUpperCase rest
      | None \<Rightarrow> upper_char c # toUpperCase cs)"
  by pat_completeness auto
termination
proof (relation "measure length")
  show "wf (measure length)" by simp
next
  fix c cs x2 x y
  assume "special_at special_casing (c # cs) = Some x2" and "(x, y) = x2"
  then have "special_at special_casing (c # cs) = Some (x, y)" by simp
  moreover have "special_at table s = Some (u, rest) \<Longrightarrow> s \<noteq> [] \<Longrightarrow> length rest < length s"
    for table s u rest
    by (induction table) (auto split: if_splits)
  ultimately show "(y, c # cs) \<in> measure length" by fastforce
next
  fix c cs
  show "(cs, c # cs) \<in> measure length" by simp
qed

section \<open>The two in-memory maps, outbound calls and responses\<close>

text \<open>
  Lines 18 and 19: \<^verbatim>\<open>paymentUrls\<close> (order id to payment URL) and
  \<^verbatim>\<open>orderIdToRefId\<close> (order id to refId). A \<^verbatim>\<open>Map\<close> stores whatever value it is
  given, so a payment URL is a \<^typ>\<open>jsval\<close>.
\<close>

record server_state =
  paymentUrls :: "string \<rightharpoonup> jsval"
  orderIdToRefId :: "string \<rightharpoonup> string"

definition initial_state :: server_state where
  "initial_state = \<lparr>paymentUrls = Map.empty, orderIdToRefId = Map.empty\<rparr>"

text \<open>
  The outbound HTTP calls. \<open>CreateOrder customer_mobile amount order_id redirect_url remark1\<close>
  is the gateway's create-order call of lines 79 to 88, \<open>Capture shopifyOrderId amount message\<close>
  the storefront's capture transaction of lines 142 to 158, \<open>CheckOrderStatus order_id\<close> the
  gateway's status call of lines 179 to 184. Tokens and host names are configuration
  constants and left out. \<open>CreateOrderRemark2\<close> is the create-order call of the earlier
  version (lines 260 to 270), which has a \<^verbatim>\<open>remark2\<close> as well.
\<close>

datatype outbound =
    CreateOrder string string string string string
  | Capture string jsval string
  | CheckOrderStatus string
  | CreateOrderRemark2 string string string string string string

text \<open>
  \<open>ErrorPage\<close> is the body that Express's own error handler writes, with the status of the
  error (500 when the error carries none).
\<close>

datatype body =
    Text string
  | PaymentUrlJson jsval
  | ErrorJson string
  | Verbatim string
  | ErrorPage

text \<open>
  \<open>NoResponse\<close>: an exception left the \<^verbatim>\<open>async\<close> handler outside its
  \<^verbatim>\<open>try\<close> block, so the handler sent nothing.
\<close>

datatype response = Response nat body | NoResponse

fun status_code :: "response \<Rightarrow> nat option" where
  "status_code (Response c b) = Some c"
| "status_code NoResponse = None"

record outcome =
  state_after :: server_state
  calls :: "outbound list"
  resp :: response

text \<open>
  A middleware calls \<^verbatim>\<open>next()\<close>, sends a response, or throws; what it throws Express
  catches and hands to its error handler.
\<close>

datatype middleware = Next | Respond response | Throws

subsection \<open>What the outside world answers\<close>

text \<open>
  The answer of \<^verbatim>\<open>axios.post\<close> to the gateway's create-order call: it throws
  (transport error, or a status outside 2xx), or it returns \<^verbatim>\<open>response.data\<close>. Of the
  data the handler reads \<^verbatim>\<open>data.status === true\<close> and \<^verbatim>\<open>data.result.payment_url\<close>;
  \<open>AxiosData None\<close> is data whose properties cannot be read (\<^verbatim>\<open>null\<close>), and
  \<open>data_result = None\<close> a \<^verbatim>\<open>result\<close> whose properties cannot be read.
\<close>

record gw_data =
  data_status_true :: bool
  data_result :: "jsval option"

datatype axios_result = AxiosThrows | AxiosData "gw_data option"

text \<open>
  The answers on which the handler reaches line 92: \<^verbatim>\<open>data.status === true\<close> and a
  \<^verbatim>\<open>data.result\<close> whose \<^verbatim>\<open>payment_url\<close> can be read.
\<close>

fun well_formed_success :: "axios_result \<Rightarrow> bool" where
  "well_formed_success (AxiosData (Some d)) = (data_status_true d \<and> data_result d \<noteq> None)"
| "well_formed_success other = False"

datatype capture_result = CaptureThrows | CaptureReturns

datatype status_result = StatusThrows | StatusData string

section \<open>The order-creation webhook (lines 22 to 38 and 57 to 104)\<close>

text \<open>
  An order-creation request: the raw bytes of its body, whether \<^verbatim>\<open>express.raw\<close> of
  line 59 has read them into \<^verbatim>\<open>req.body\<close>, and the value of the header
  \<^verbatim>\<open>X-Shopify-Hmac-Sha256\<close>, if the request has one. \<^verbatim>\<open>express.raw\<close> reads the
  body of a request whose \<^verbatim>\<open>Content-Type\<close> is \<^verbatim>\<open>application/json\<close>; of any other
  request it reads nothing, and \<^verbatim>\<open>req.body\<close> is not a buffer.
\<close>

record shopify_request =
  raw_body :: string
  body_is_buffer :: bool
  hmac_header :: "string option"

text \<open>
  \<^verbatim>\<open>verifyShopifyWebhook\<close>. \<open>hmac secret bytes\<close> stands for Node's
  \<^verbatim>\<open>crypto.createHmac('sha256', secret).update(bytes).digest('base64')\<close>, a library
  function taken as a parameter. \<^verbatim>\<open>update\<close> throws a TypeError when it is given
  something that is neither a string nor a buffer.
\<close>

definition verifyShopifyWebhook ::
  "(string \<Rightarrow> string \<Rightarrow> string) \<Rightarrow> string \<Rightarrow> shopify_request \<Rightarrow> middleware" where
  "verifyShopifyWebhook hmac secret req =
     (if \<not> body_is_buffer req then Throws
      else
        (let generatedHash = hmac secret (raw_body req) in
         if Some generatedHash = hmac_header req then Next
         else Respond (Response 401 (Text ''Webhook verification failed.''))))"

text \<open>
  The fields of the parsed order that the handler reads. \<open>billing_phone\<close> is
  \<^verbatim>\<open>order.billing_address?.phone\<close>, \<open>shipping_phone\<close> likewise, and
  \<open>id_toString\<close> is \<^verbatim>\<open>order.id.toString()\<close>: \<open>None\<close> when \<^verbatim>\<open>order.id\<close> is
  absent, so that the call throws.
\<close>

record shopify_order =
  financial_status :: jsval
  billing_phone :: jsval
  shipping_phone :: jsval
  total_price :: jsval
  id_toString :: "string option"
  order_status_url :: jsval
  order_note :: jsval

definition customerMobile :: "shopify_order \<Rightarrow> jsval" where
  "customerMobile order = js_or (billing_phone order) (shipping_phone order)"

definition remark1 :: "shopify_order \<Rightarrow> jsval" where
  "remark1 order = js_or (order_note order) (JStr ''Shopify order from likone.shop'')"

definition create_order_call :: "shopify_order \<Rightarrow> string \<Rightarrow> outbound" where
  "create_order_call order ref =
     CreateOrder (js_String (customerMobile order)) (js_String (total_price order)) ref
       (js_String (order_status_url order)) (js_String (remark1 order))"

text \<open>
  The handler proper, lines 64 to 102, on the parsed order. \<open>now\<close> is the value of
  \<^verbatim>\<open>Date.now()\<close> and \<open>gw\<close> what the gateway answers to the create-order call.
\<close>

definition order_handler ::
  "nat \<Rightarrow> axios_result \<Rightarrow> server_state \<Rightarrow> shopify_order \<Rightarrow> outcome" where
  "order_handler now gw s order =
     (if financial_status order \<noteq> JStr ''pending''
      then \<lparr>state_after = s, calls = [], resp = Response 200 (Text ''Not a pending order'')\<rparr>
      else if \<not> truthy (customerMobile order)
      then \<lparr>state_after = s, calls = [], resp = Response 200 (Text ''Missing mobile'')\<rparr>
      else
        (case id_toString order of
           None \<Rightarrow> \<lparr>state_after = s, calls = [], resp = NoResponse\<rparr>
         | Some orderId \<Rightarrow>
             (let ref = refId orderId now;
                  call = create_order_call order ref;
                  server_error =
                    \<lparr>state_after = s, calls = [call],
                     resp = Response 500 (Text ''Server error'')\<rparr>
              in case gw of
                   AxiosThrows \<Rightarrow> server_error
                 | AxiosData None \<Rightarrow> server_error
                 | AxiosData (Some d) \<Rightarrow>
                     if data_status_true d then
                       (case data_result d of
                          None \<Rightarrow> server_error
                        | Some paymentUrl \<Rightarrow>
                            \<lparr>state_after =
                               s\<lparr>paymentUrls := (paymentUrls s)(orderId \<mapsto> paymentUrl),
                                 orderIdToRefId := (orderIdToRefId s)(orderId \<mapsto> ref)\<rparr>,
                             calls = [call],
                             resp = Response 200 (Text ''Order processed'')\<rparr>)
                     else
                       \<lparr>state_after = s, calls = [call],
                        resp = Response 200 (Text ''Provider error'')\<rparr>)))"

text \<open>
  The route, lines 57 to 62: the verifier, then \<^verbatim>\<open>JSON.parse\<close> of the raw body, then
  the handler. \<open>parse\<close> stands for \<^verbatim>\<open>JSON.parse\<close> followed by the reading of the
  fields above; it is \<open>None\<close> when that throws.
\<close>

definition shopify_order_webhook ::
  "(string \<Rightarrow> string \<Rightarrow> string) \<Rightarrow> (string \<Rightarrow> shopify_order option) \<Rightarrow> string \<Rightarrow>
   nat \<Rightarrow> axios_result \<Rightarrow> server_state \<Rightarrow> shopify_request \<Rightarrow> outcome" where
  "shopify_order_webhook hmac parse secret now gw s req =
     (case verifyShopifyWebhook hmac secret req of
        Respond r \<Rightarrow> \<lparr>state_after = s, calls = [], resp = r\<rparr>
      | Throws \<Rightarrow> \<lparr>state_after = s, calls = [], resp = Response 500 ErrorPage\<rparr>
      | Next \<Rightarrow>
          (case parse (raw_body req) of
             None \<Rightarrow> \<lparr>state_after = s, calls = [], resp = NoResponse\<rparr>
           | Some order \<Rightarrow> order_handler now gw s order))"

section \<open>The payment-URL route (lines 108 to 117)\<close>

text \<open>
  \<open>q\<close> is \<^verbatim>\<open>req.query.order_id\<close>: \<open>None\<close> when it is not a string (absent, an array),
  which no key of the map equals.
\<close>

definition get_payment_url :: "server_state \<Rightarrow> string option \<Rightarrow> outcome" where
  "get_payment_url s q =
     (case q of
        None \<Rightarrow>
          \<lparr>state_after = s, calls = [], resp = Response 200 (PaymentUrlJson JNull)\<rparr>
      | Some orderId \<Rightarrow>
          (let paymentUrl = (case paymentUrls s orderId of None \<Rightarrow> JUndefined | Some v \<Rightarrow> v)
           in if truthy paymentUrl
              then \<lparr>state_after = s\<lparr>paymentUrls := (paymentUrls s)(orderId := None)\<rparr>,
                    calls = [],
                    resp = Response 200 (PaymentUrlJson paymentUrl)\<rparr>
              else \<lparr>state_after = s, calls = [],
                    resp = Response 200 (PaymentUrlJson JNull)\<rparr>))"

section \<open>The payment-result webhook (lines 42 to 53 and 121 to 166)\<close>

text \<open>The request after \<^verbatim>\<open>express.json\<close>: its headers and the fields of its body.\<close>

record payin_request =
  headers :: "(string \<times> string) list"
  order_id :: jsval
  status :: jsval
  amount :: jsval
  utr :: interpolated
  message :: interpolated

text \<open>\<^verbatim>\<open>verifyFintrixWebhook\<close>: a warning is logged and \<^verbatim>\<open>next()\<close> is called.\<close>

definition verifyFintrixWebhook :: "payin_request \<Rightarrow> middleware" where
  "verifyFintrixWebhook req = Next"

text \<open>
  The arguments of \<^verbatim>\<open>axios.post\<close>, lines 143 to 157. The template literal of line 150
  converts \<^verbatim>\<open>utr\<close> and \<^verbatim>\<open>message\<close> to strings; when a conversion throws there is
  no call (\<open>None\<close>).
\<close>

definition capture_call :: "string \<Rightarrow> payin_request \<Rightarrow> outbound option" where
  "capture_call shopifyOrderId req =
     (case utr req of
        ConversionThrows \<Rightarrow> None
      | Converts u \<Rightarrow>
          (case message req of
             ConversionThrows \<Rightarrow> None
           | Converts m \<Rightarrow>
               Some (Capture shopifyOrderId (amount req)
                 (''UTR: '' @ js_String u @ '' - '' @ js_String m))))"

text \<open>
  The handler, lines 126 to 164. A truthy \<^verbatim>\<open>order_id\<close> or \<^verbatim>\<open>status\<close> that is
  not a string has no \<^verbatim>\<open>match\<close> or \<^verbatim>\<open>toUpperCase\<close> method: the call throws
  outside the \<^verbatim>\<open>try\<close> block. Inside it, a conversion that throws while the arguments
  are built is caught like a failed call, before any call is made. \<open>shop\<close> is what the
  storefront answers to the capture call. The handler reads neither map.
\<close>

definition payin_handler :: "capture_result \<Rightarrow> server_state \<Rightarrow> payin_request \<Rightarrow> outcome" where
  "payin_handler shop s req =
     (if \<not> truthy (order_id req) \<or> \<not> truthy (status req)
      then \<lparr>state_after = s, calls = [], resp = Response 400 (Text ''Invalid payload'')\<rparr>
      else
        (case order_id req of
           JStr ref \<Rightarrow>
             (case orderIdMatch ref of
                None \<Rightarrow>
                  \<lparr>state_after = s, calls = [],
                   resp = Response 400 (Text ''Invalid ref_id format'')\<rparr>
              | Some shopifyOrderId \<Rightarrow>
                  (case status req of
                     JStr st \<Rightarrow>
                       if toUpperCase st \<noteq> ''SUCCESS''
                       then \<lparr>state_after = s, calls = [],
                             resp = Response 200 (Text ''Payment was not successful'')\<rparr>
                       else
                         (case capture_call shopifyOrderId req of
                            None \<Rightarrow>
                              \<lparr>state_after = s, calls = [],
                               resp = Response 500 (Text ''Server error'')\<rparr>
                          | Some call \<Rightarrow>
                              (case shop of
                                 CaptureReturns \<Rightarrow>
                                   \<lparr>state_after = s, calls = [call],
                                    resp = Response 200 (Text ''Success'')\<rparr>
                               | CaptureThrows \<Rightarrow>
                                   \<lparr>state_after = s, calls = [call],
                                    resp = Response 500 (Text ''Server error'')\<rparr>))
                   | _ \<Rightarrow> \<lparr>state_after = s, calls = [], resp = NoResponse\<rparr>))
         | _ \<Rightarrow> \<lparr>state_after = s, calls = [], resp = NoResponse\<rparr>))"

definition payin_webhook :: "capture_result \<Rightarrow> server_state \<Rightarrow> payin_request \<Rightarrow> outcome" where
  "payin_webhook shop s req =
     (case verifyFintrixWebhook req of
        Respond r \<Rightarrow> \<lparr>state_after = s, calls = [], resp = r\<rparr>
      | Throws \<Rightarrow> \<lparr>state_after = s, calls = [], resp = Response 500 ErrorPage\<rparr>
      | Next \<Rightarrow> payin_handler shop s req)"

section \<open>The status route (lines 170 to 190)\<close>

text \<open>
  \<open>q\<close> is \<^verbatim>\<open>req.query.order_id\<close> as above and \<open>gw\<close> what the gateway answers to
  the status call. Line 174 tests \<^verbatim>\<open>!refId\<close>, which holds when the map has no entry
  for the order id and also when the entry is the empty string.
\<close>

definition check_status :: "status_result \<Rightarrow> server_state \<Rightarrow> string option \<Rightarrow> outcome" where
  "check_status gw s q =
     (case (case q of None \<Rightarrow> None | Some orderId \<Rightarrow> orderIdToRefId s orderId) of
        None \<Rightarrow>
          \<lparr>state_after = s, calls = [],
           resp = Response 404 (ErrorJson ''Order not found or not processed yet'')\<rparr>
      | Some ref \<Rightarrow>
          if ref = []
          then \<lparr>state_after = s, calls = [],
                resp = Response 404 (ErrorJson ''Order not found or not processed yet'')\<rparr>
          else
            (case gw of
               StatusData d \<Rightarrow>
                 \<lparr>state_after = s, calls = [CheckOrderStatus ref],
                  resp = Response 200 (Verbatim d)\<rparr>
             | StatusThrows \<Rightarrow>
                 \<lparr>state_after = s, calls = [CheckOrderStatus ref],
                  resp = Response 500 (ErrorJson ''Failed to check status'')\<rparr>))"

section \<open>The earlier version's order-creation webhook (lines 224 to 285)\<close>

text \<open>
  In the earlier version \<^verbatim>\<open>bodyParser.json()\<close> and \<^verbatim>\<open>bodyParser.urlencoded()\<close> run
  before every route, so \<^verbatim>\<open>req.body\<close> is an object when the route starts, and the
  verifier hashes \<^verbatim>\<open>JSON.stringify(req.body)\<close> instead of the bytes that were sent.
  \<open>stringify_body req\<close> stands for \<^verbatim>\<open>JSON.stringify(req.body)\<close> on the object the
  parsers made of the request, and \<open>parsed_order req\<close> for the fields of that object, \<open>None\<close>
  when a parser refuses the body (Express then answers 400 and the route does not run).
  Both are the work of libraries and are taken as parameters.
\<close>

definition verifyShopifyWebhook_earlier ::
  "(string \<Rightarrow> string \<Rightarrow> string) \<Rightarrow> (shopify_request \<Rightarrow> string) \<Rightarrow> string \<Rightarrow>
   shopify_request \<Rightarrow> bool" where
  "verifyShopifyWebhook_earlier hmac stringify_body secret req =
     (let hmacHeader = hmac_header req;
          body = stringify_body req;
          calculatedHmac = hmac secret body
      in hmacHeader = Some calculatedHmac)"

definition create_order_call_earlier :: "shopify_order \<Rightarrow> string \<Rightarrow> outbound" where
  "create_order_call_earlier order ref =
     CreateOrderRemark2 (js_String (customerMobile order)) (js_String (total_price order)) ref
       (js_String (order_status_url order)) (js_String (remark1 order)) []"

text \<open>Lines 241 to 284: as the current handler, but only the payment URL is stored.\<close>

definition order_handler_earlier ::
  "nat \<Rightarrow> axios_result \<Rightarrow> server_state \<Rightarrow> shopify_order \<Rightarrow> outcome" where
  "order_handler_earlier now gw s order =
     (if financial_status order \<noteq> JStr ''pending''
      then \<lparr>state_after = s, calls = [], resp = Response 200 (Text ''Not a pending order'')\<rparr>
      else if \<not> truthy (customerMobile order)
      then \<lparr>state_after = s, calls = [], resp = Response 200 (Text ''Missing mobile'')\<rparr>
      else
        (case id_toString order of
           None \<Rightarrow> \<lparr>state_after = s, calls = [], resp = NoResponse\<rparr>
         | Some orderId \<Rightarrow>
             (let ref = refId orderId now;
                  call = create_order_call_earlier order ref;
                  server_error =
                    \<lparr>state_after = s, calls = [call],
                     resp = Response 500 (Text ''Server error'')\<rparr>
              in case gw of
                   AxiosThrows \<Rightarrow> server_error
                 | AxiosData None \<Rightarrow> server_error
                 | AxiosData (Some d) \<Rightarrow>
                     if data_status_true d then
                       (case data_result d of
                          None \<Rightarrow> server_error
                        | Some paymentUrl \<Rightarrow>
                            \<lparr>state_after =
                               s\<lparr>paymentUrls := (paymentUrls s)(orderId \<mapsto> paymentUrl)\<rparr>,
                             calls = [call],
                             resp = Response 200 (Text ''Order processed'')\<rparr>)
                     else
                       \<lparr>state_after = s, calls = [call],
                        resp = Response 200 (Text ''Provider error'')\<rparr>)))"

definition shopify_order_webhook_earlier ::
  "(string \<Rightarrow> string \<Rightarrow> string) \<Rightarrow> (shopify_request \<Rightarrow> string) \<Rightarrow>
   (shopify_request \<Rightarrow> shopify_order option) \<Rightarrow> string \<Rightarrow>
   nat \<Rightarrow> axios_result \<Rightarrow> server_state \<Rightarrow> shopify_request \<Rightarrow> outcome" where
  "shopify_order_webhook_earlier hmac stringify_body parsed_order secret now gw s req =
     (case parsed_order req of
        None \<Rightarrow> \<lparr>state_after = s, calls = [], resp = Response 400 ErrorPage\<rparr>
      | Some order \<Rightarrow>
          if \<not> verifyShopifyWebhook_earlier hmac stringify_body secret req
          then \<lparr>state_after = s, calls = [],
                resp = Response 401 (Text ''Webhook verification failed'')\<rparr>
          else order_handler_earlier now gw s order)"

section \<open>Deliveries one after another\<close>

text \<open>
  Two deliveries of an event are two runs of the handler, the second on the state the
  first left; the calls of both are collected in order.
\<close>

definition then_run :: "outcome \<Rightarrow> (server_state \<Rightarrow> outcome) \<Rightarrow> outcome" where
  "then_run first second =
     (let o2 = second (state_after first)
      in \<lparr>state_after = state_after o2, calls = calls first @ calls o2, resp = resp o2\<rparr>)"

fun is_capture :: "outbound \<Rightarrow> bool" where
  "is_capture (Capture i a m) = True"
| "is_capture other = False"

fun is_create_order :: "outbound \<Rightarrow> bool" where
  "is_create_order (CreateOrder m a r u k) = True"
| "is_create_order other = False"

section \<open>A worked example\<close>

text \<open>
  The order of the specification's example: order 1001, pending, with a billing phone,
  taken in at the time 1700000000000 while the gateway accepts; then the payment-result
  event the gateway sends for a refId; and the states after the intake and after the
  client has fetched the link.
\<close>

definition order_1001 :: shopify_order where
  "order_1001 =
     \<lparr>financial_status = JStr ''pending'', billing_phone = JStr ''+10000000000'',
      shipping_phone = JUndefined, total_price = JStr ''25.00'', id_toString = Some ''1001'',
      order_status_url = JStr ''https://shop.example/orders/1001'', order_note = JUndefined\<rparr>"

definition gateway_accepts :: axios_result where
  "gateway_accepts =
     AxiosData (Some \<lparr>data_status_true = True,
                      data_result = Some (JStr ''https://pay.example/1001'')\<rparr>)"

definition success_event :: "string \<Rightarrow> payin_request" where
  "success_event ref =
     \<lparr>headers = [], order_id = JStr ref, status = JStr ''SUCCESS'', amount = JStr ''25.00'',
      utr = Converts (JStr ''X1''), message = Converts JUndefined\<rparr>"

definition after_intake :: server_state where
  "after_intake =
     state_after (order_handler 1700000000000 gateway_accepts initial_state order_1001)"

definition after_take :: server_state where
  "after_take = state_after (get_payment_url after_intake (Some ''1001''))"

text \<open>
  The body of the order-creation event for that order, as \<^verbatim>\<open>JSON.stringify\<close> writes
  it, and three requests. The first carries the body as \<^verbatim>\<open>application/json\<close> with a
  header that is no signature of it. The second has the same header and is sent as
  \<^verbatim>\<open>text/plain\<close>. The third is sent as \<^verbatim>\<open>application/json\<close> with a blank after
  the body, and its header is the HMAC of the body without the blank. In the examples a
  stand-in that tells any two messages apart takes the place of the HMAC.
\<close>

definition order_1001_json :: string where
  "order_1001_json =
     ''{\"id\":1001,\"financial_status\":\"pending\",'' @
     ''\"billing_address\":{\"phone\":\"+10000000000\"},\"total_price\":\"25.00\",'' @
     ''\"order_status_url\":\"https://shop.example/orders/1001\"}''"

definition key_then_bytes :: "string \<Rightarrow> string \<Rightarrow> string" where
  "key_then_bytes key bytes = key @ '':'' @ bytes"

definition tampered_request :: shopify_request where
  "tampered_request =
     \<lparr>raw_body = order_1001_json, body_is_buffer = True, hmac_header = Some ''c2lnbmF0dXJl''\<rparr>"

definition plain_text_request :: shopify_request where
  "plain_text_request =
     \<lparr>raw_body = order_1001_json, body_is_buffer = False, hmac_header = Some ''c2lnbmF0dXJl''\<rparr>"

definition respaced_request :: shopify_request where
  "respaced_request =
     \<lparr>raw_body = order_1001_json @ '' '', body_is_buffer = True,
      hmac_header = Some (key_then_bytes ''secret'' order_1001_json)\<rparr>"

section \<open>Decimal digits\<close>

lemma below_ten_cases:
  "(d::nat) < 10 \<Longrightarrow>
     d = 0 \<or> d = 1 \<or> d = 2 \<or> d = 3 \<or> d = 4 \<or> d = 5 \<or> d = 6 \<or> d = 7 \<or> d = 8 \<or> d = 9"
  by arith

lemma digit_char_isDigit: "d < 10 \<Longrightarrow> isDigit (digit_char d)"
  using below_ten_cases [of d] by (auto simp: isDigit_def digit_char_def)

lemma digit_char_inj: "a < 10 \<Longrightarrow> b < 10 \<Longrightarrow> digit_char a = digit_char b \<Longrightarrow> a = b"
  using below_ten_cases [of a] below_ten_cases [of b] by (auto simp: digit_char_def)

lemma string_of_nat_nonempty: "string_of_nat n \<noteq> []"
  by (subst string_of_nat.simps) simp

lemma string_of_nat_digits: "list_all isDigit (string_of_nat n)"
proof (induction n rule: string_of_nat.induct)
  case (1 n)
  show ?case
  proof (cases "n < 10")
    case True
    then show ?thesis
      by (subst string_of_nat.simps) (simp add: digit_char_isDigit)
  next
    case False
    with "1" have "list_all isDigit (string_of_nat (n div 10))" by simp
    moreover have "isDigit (digit_char (n mod 10))" by (simp add: digit_char_isDigit)
    ultimately show ?thesis using False
      by (subst string_of_nat.simps) simp
  qed
qed

text \<open>Two numbers with the same decimal writing are equal.\<close>

lemma string_of_nat_inj: "string_of_nat a = string_of_nat b \<Longrightarrow> a = b"
proof (induction a arbitrary: b rule: string_of_nat.induct)
  case (1 n)
  show ?case
  proof (cases "n < 10")
    case True
    note n_small = this
    show ?thesis
    proof (cases "b < 10")
      case True
      with n_small "1.prems" have "digit_char n = digit_char b"
        by (simp add: string_of_nat.simps [of n] string_of_nat.simps [of b])
      with n_small True show ?thesis by (rule digit_char_inj)
    next
      case False
      with n_small "1.prems" have "string_of_nat (b div 10) = []"
        by (simp add: string_of_nat.simps [of n] string_of_nat.simps [of b])
      then show ?thesis by (simp add: string_of_nat_nonempty)
    qed
  next
    case False
    note n_big = this
    show ?thesis
    proof (cases "b < 10")
      case True
      with n_big "1.prems" have "string_of_nat (n div 10) = []"
        by (simp add: string_of_nat.simps [of n] string_of_nat.simps [of b])
      then show ?thesis by (simp add: string_of_nat_nonempty)
    next
      case False
      with n_big "1.prems" have
        front: "string_of_nat (n div 10) = string_of_nat (b div 10)" and
        last: "digit_char (n mod 10) = digit_char (b mod 10)"
        by (simp_all add: string_of_nat.simps [of n] string_of_nat.simps [of b])
      from "1.IH" [OF n_big front] have "n div 10 = b div 10" .
      moreover from last have "n mod 10 = b mod 10"
        by (intro digit_char_inj) simp_all
      ultimately show ?thesis
        by (metis div_mult_mod_eq)
    qed
  qed
qed

section \<open>What the pattern extracts\<close>

lemma takeWhile_all: "list_all P xs \<Longrightarrow> takeWhile P xs = xs"
  by (induction xs) auto

lemma lik_digits_at_Some: "lik_digits_at s = Some d \<Longrightarrow> d \<noteq> [] \<and> list_all isDigit d"
  by (auto simp: lik_digits_at_def list_all_iff split: if_splits dest: set_takeWhileD)

text \<open>The group of a match is a non-empty run of digits.\<close>

lemma orderIdMatch_Some: "orderIdMatch s = Some d \<Longrightarrow> d \<noteq> [] \<and> list_all isDigit d"
  by (induction s) (auto split: option.splits dest: lik_digits_at_Some)

text \<open>
  On the refId of a numeric order id the match starts at the prefix and the group runs
  through the order id and the timestamp.
\<close>

lemma orderIdMatch_refId_digits:
  assumes "list_all isDigit orderId"
  shows "orderIdMatch (refId orderId now) = Some (orderId @ string_of_nat now)"
proof -
  have "list_all isDigit (orderId @ string_of_nat now)"
    using assms string_of_nat_digits by simp
  then have "takeWhile isDigit (orderId @ string_of_nat now) = orderId @ string_of_nat now"
    by (rule takeWhile_all)
  moreover have "orderId @ string_of_nat now \<noteq> []"
    by (simp add: string_of_nat_nonempty)
  moreover have "take 3 (refId orderId now) = ''LIK''"
    and "drop 3 (refId orderId now) = orderId @ string_of_nat now"
    by (simp_all add: refId_def)
  ultimately have "lik_digits_at (refId orderId now) = Some (orderId @ string_of_nat now)"
    unfolding lik_digits_at_def by (simp only: if_True simp_thms)
  moreover have "refId orderId now = CHR ''L'' # ''IK'' @ orderId @ string_of_nat now"
    by (simp add: refId_def)
  ultimately show ?thesis by (simp only: orderIdMatch.simps option.case)
qed

text \<open>
  So the extraction gives back the order id for no order id and no time at all: the
  group is a non-empty run of digits, and when the order id is one, the group also holds
  the timestamp.
\<close>

lemma orderIdMatch_refId_never_orderId: "orderIdMatch (refId orderId now) \<noteq> Some orderId"
proof
  assume eq: "orderIdMatch (refId orderId now) = Some orderId"
  then have "list_all isDigit orderId" by (auto dest: orderIdMatch_Some)
  then have "orderIdMatch (refId orderId now) = Some (orderId @ string_of_nat now)"
    by (rule orderIdMatch_refId_digits)
  with eq have "string_of_nat now = []" by simp
  then show False by (simp add: string_of_nat_nonempty)
qed

section \<open>Evaluating the example\<close>

lemmas example_defs = order_1001_def gateway_accepts_def success_event_def initial_state_def

lemmas request_defs =
  tampered_request_def plain_text_request_def respaced_request_def key_then_bytes_def
  order_1001_json_def

lemmas evaluation =
  refId_def string_of_nat.simps digit_char_def lik_digits_at_def isDigit_def
  special_casing_def upper_char_def js_or_def customerMobile_def remark1_def
  create_order_call_def create_order_call_earlier_def capture_call_def Let_def

lemma order_1001_valid:
  "financial_status order_1001 = JStr ''pending''"
  "truthy (customerMobile order_1001)"
  "id_toString order_1001 = Some ''1001''"
  by (simp_all add: order_1001_def customerMobile_def js_or_def)

lemma order_1001_call:
  "create_order_call order_1001 (refId ''1001'' 1700000000000) =
     CreateOrder ''+10000000000'' ''25.00'' ''LIK10011700000000000''
       ''https://shop.example/orders/1001'' ''Shopify order from likone.shop''"
  "create_order_call order_1001 (refId ''1001'' 1700000000005) =
     CreateOrder ''+10000000000'' ''25.00'' ''LIK10011700000000005''
       ''https://shop.example/orders/1001'' ''Shopify order from likone.shop''"
  by (simp_all add: example_defs evaluation)

lemma order_1001_processed:
  "resp (order_handler 1700000000000 gateway_accepts initial_state order_1001) =
     Response 200 (Text ''Order processed'')"
  by (simp add: order_handler_def example_defs evaluation)

lemma after_intake_eq:
  "after_intake =
     \<lparr>paymentUrls = [''1001'' \<mapsto> JStr ''https://pay.example/1001''],
      orderIdToRefId = [''1001'' \<mapsto> ''LIK10011700000000000'']\<rparr>"
  by (simp add: after_intake_def order_handler_def example_defs evaluation)

lemma after_take_eq:
  "after_take =
     \<lparr>paymentUrls = Map.empty, orderIdToRefId = [''1001'' \<mapsto> ''LIK10011700000000000'']\<rparr>"
  by (simp add: after_take_def after_intake_eq get_payment_url_def)

section \<open>The handlers, branch by branch\<close>

lemma orderIdMatch_nonempty: "orderIdMatch ref = Some d \<Longrightarrow> ref \<noteq> []"
  by (cases ref) simp_all

lemma toUpperCase_nonempty: "toUpperCase st = ''SUCCESS'' \<Longrightarrow> st \<noteq> []"
  by auto

lemma refId_nonempty: "refId orderId now \<noteq> []"
  by (simp add: refId_def)

text \<open>
  The payment-result handler on an event that passes its three checks: with a message
  that can be built, and with one that cannot.
\<close>

lemma payin_handler_success:
  assumes "order_id req = JStr ref" and "orderIdMatch ref = Some shopifyOrderId"
    and "status req = JStr st" and "toUpperCase st = ''SUCCESS''"
    and "utr req = Converts u" and "message req = Converts m"
  shows "payin_handler shop s req =
           \<lparr>state_after = s,
            calls = [Capture shopifyOrderId (amount req)
                       (''UTR: '' @ js_String u @ '' - '' @ js_String m)],
            resp = (case shop of
                      CaptureReturns \<Rightarrow> Response 200 (Text ''Success'')
                    | CaptureThrows \<Rightarrow> Response 500 (Text ''Server error''))\<rparr>"
  using assms orderIdMatch_nonempty [OF assms(2)] toUpperCase_nonempty [OF assms(4)]
  by (simp add: payin_handler_def capture_call_def split: capture_result.split)

lemma payin_handler_conversion_throws:
  assumes "order_id req = JStr ref" and "orderIdMatch ref = Some shopifyOrderId"
    and "status req = JStr st" and "toUpperCase st = ''SUCCESS''"
    and "utr req = ConversionThrows \<or> message req = ConversionThrows"
  shows "payin_handler shop s req =
           \<lparr>state_after = s, calls = [], resp = Response 500 (Text ''Server error'')\<rparr>"
  using assms orderIdMatch_nonempty [OF assms(2)] toUpperCase_nonempty [OF assms(4)]
  by (auto simp: payin_handler_def capture_call_def split: interpolated.split)

text \<open>The intake handler on an order that passes its checks, by the gateway's answer.\<close>

lemma order_handler_valid:
  assumes "financial_status order = JStr ''pending''" and "truthy (customerMobile order)"
    and "id_toString order = Some orderId"
  shows "order_handler now gw s order =
     (if well_formed_success gw
      then \<lparr>state_after =
              s\<lparr>paymentUrls :=
                   (paymentUrls s)(orderId \<mapsto>
                      (case gw of
                         AxiosData (Some d) \<Rightarrow>
                           (case data_result d of Some u \<Rightarrow> u | None \<Rightarrow> JUndefined)
                       | _ \<Rightarrow> JUndefined)),
                 orderIdToRefId := (orderIdToRefId s)(orderId \<mapsto> refId orderId now)\<rparr>,
            calls = [create_order_call order (refId orderId now)],
            resp = Response 200 (Text ''Order processed'')\<rparr>
      else \<lparr>state_after = s,
            calls = [create_order_call order (refId orderId now)],
            resp = (case gw of
                      AxiosData (Some d) \<Rightarrow>
                        if data_status_true d then Response 500 (Text ''Server error'')
                        else Response 200 (Text ''Provider error'')
                    | _ \<Rightarrow> Response 500 (Text ''Server error''))\<rparr>)"
  using assms
  by (cases gw rule: well_formed_success.cases)
     (auto simp: order_handler_def Let_def split: option.splits)

lemma order_handler_failure:
  assumes "\<not> well_formed_success gw"
  shows "state_after (order_handler now gw s order) = s"
  using assms
  by (cases gw rule: well_formed_success.cases)
     (auto simp: order_handler_def Let_def split: option.splits)

lemma order_processed_stores_ref:
  assumes "resp (order_handler now gw s order) = Response 200 (Text ''Order processed'')"
    and "id_toString order = Some orderId"
  shows "orderIdToRefId (state_after (order_handler now gw s order)) =
           (orderIdToRefId s)(orderId \<mapsto> refId orderId now)"
  using assms
  by (auto simp: order_handler_def Let_def
      split: if_splits option.splits axios_result.splits)

text \<open>The earlier version rejects what differs from the HMAC of the re-serialised body.\<close>

lemma shopify_order_webhook_earlier_rejects:
  assumes "parsed_order req = Some order"
    and "hmac_header req \<noteq> Some (hmac secret (stringify_body req))"
  shows "shopify_order_webhook_earlier hmac stringify_body parsed_order secret now gw s req =
           \<lparr>state_after = s, calls = [],
            resp = Response 401 (Text ''Webhook verification failed'')\<rparr>"
  using assms
  by (simp add: shopify_order_webhook_earlier_def verifyShopifyWebhook_earlier_def Let_def)

text \<open>The payment-URL route touches one entry of one map.\<close>

lemma get_payment_url_frame:
  "orderIdToRefId (state_after (get_payment_url t q)) = orderIdToRefId t"
  by (simp add: get_payment_url_def Let_def split: option.split)

lemma get_payment_url_other_links:
  "paymentUrls (state_after (get_payment_url t q)) k = paymentUrls t k \<or> q = Some k"
  by (simp add: get_payment_url_def Let_def split: option.split)

text \<open>The status route reads the refId map and nothing else.\<close>

lemma check_status_reads_refs_only:
  assumes "orderIdToRefId t' = orderIdToRefId t"
  shows "calls (check_status g t' q) = calls (check_status g t q) \<and>
         resp (check_status g t' q) = resp (check_status g t q)"
  using assms by (simp add: check_status_def split: option.split status_result.split)

lemma check_status_found:
  assumes "orderIdToRefId t k = Some ref" and "ref \<noteq> []"
  shows "calls (check_status g t (Some k)) = [CheckOrderStatus ref] \<and>
         status_code (resp (check_status g t (Some k))) \<noteq> Some 404"
  using assms by (simp add: check_status_def split: status_result.split)

lemma check_status_404_iff:
  assumes "orderIdToRefId t k \<noteq> Some []"
  shows "(status_code (resp (check_status g t (Some k))) = Some 404) = (orderIdToRefId t k = None)"
  using assms by (auto simp: check_status_def split: option.split status_result.split)

section \<open>The claims\<close>

subsection \<open>C1: a success event delivered twice\<close>

text \<open>
  C1, as amended. For every payment-result event whose \<^verbatim>\<open>order_id\<close> is a string in
  which the pattern finds an order id, whose \<^verbatim>\<open>status\<close> is a string that
  \<^verbatim>\<open>toUpperCase\<close> turns into SUCCESS, and whose \<^verbatim>\<open>utr\<close> and \<^verbatim>\<open>message\<close> convert
  to strings, every delivery issues exactly one capture call to the storefront, for the
  extracted id, whatever the two maps hold and whatever the storefront answers; the maps
  are left as they were. The handler keeps no order status and checks none before
  capturing, so two deliveries of the event issue two capture calls.
\<close>

theorem every_success_delivery_captures:
  assumes "order_id req = JStr ref" and "orderIdMatch ref = Some shopifyOrderId"
    and "status req = JStr st" and "toUpperCase st = ''SUCCESS''"
    and "utr req = Converts u" and "message req = Converts m"
  shows "calls (payin_webhook shop s req) =
           [Capture shopifyOrderId (amount req)
              (''UTR: '' @ js_String u @ '' - '' @ js_String m)] \<and>
         state_after (payin_webhook shop s req) = s \<and>
         calls (then_run (payin_webhook shop s req) (\<lambda>s'. payin_webhook shop' s' req)) =
           [Capture shopifyOrderId (amount req)
              (''UTR: '' @ js_String u @ '' - '' @ js_String m),
            Capture shopifyOrderId (amount req)
              (''UTR: '' @ js_String u @ '' - '' @ js_String m)]"
  by (simp add: payin_webhook_def verifyFintrixWebhook_def then_run_def
      payin_handler_success [OF assms])

text \<open>
  The theorem at the event of the example, delivered twice, with its status written with
  a sharp s (the bytes C3 9F) at the end, which \<^verbatim>\<open>toUpperCase\<close> turns into SS; the
  storefront accepts the first capture and refuses the second.
\<close>

theorem every_success_delivery_captures_witness:
  "orderIdMatch ''LIK10011700000000000'' = Some ''10011700000000000'' \<and>
   toUpperCase (''succe'' @ [CHR 0xC3, CHR 0x9F]) = ''SUCCESS'' \<and>
   toUpperCase ''success'' = ''SUCCESS'' \<and>
   calls (then_run
     (payin_webhook CaptureReturns initial_state
        ((success_event ''LIK10011700000000000'')
           \<lparr>status := JStr (''succe'' @ [CHR 0xC3, CHR 0x9F])\<rparr>))
     (\<lambda>s'. payin_webhook CaptureThrows s'
        ((success_event ''LIK10011700000000000'')
           \<lparr>status := JStr (''succe'' @ [CHR 0xC3, CHR 0x9F])\<rparr>))) =
   [Capture ''10011700000000000'' (JStr ''25.00'') ''UTR: X1 - undefined'',
    Capture ''10011700000000000'' (JStr ''25.00'') ''UTR: X1 - undefined'']"
proof -
  let ?event = "(success_event ''LIK10011700000000000'')
           \<lparr>status := JStr (''succe'' @ [CHR 0xC3, CHR 0x9F])\<rparr>"
  have matched: "orderIdMatch ''LIK10011700000000000'' = Some ''10011700000000000''"
    by (simp add: lik_digits_at_def isDigit_def)
  have upper: "toUpperCase (''succe'' @ [CHR 0xC3, CHR 0x9F]) = ''SUCCESS''"
    and ascii: "toUpperCase ''success'' = ''SUCCESS''"
    by (simp_all add: special_casing_def upper_char_def)
  have ref: "order_id ?event = JStr ''LIK10011700000000000''"
    and st: "status ?event = JStr (''succe'' @ [CHR 0xC3, CHR 0x9F])"
    and u: "utr ?event = Converts (JStr ''X1'')"
    and m: "message ?event = Converts JUndefined"
    by (simp_all add: success_event_def)
  from every_success_delivery_captures
    [OF ref matched st upper u m, of CaptureReturns initial_state CaptureThrows]
  show ?thesis
    using matched upper ascii by (simp add: success_event_def)
qed

text \<open>
  C1, as claimed, fails: the success event of the example delivered twice, with the
  storefront accepting both times, issues two capture calls, not at most one.
\<close>

theorem second_delivery_captures_again:
  "calls (then_run
     (payin_webhook CaptureReturns initial_state (success_event ''LIK10011700000000000''))
     (\<lambda>s'. payin_webhook CaptureReturns s' (success_event ''LIK10011700000000000''))) =
   [Capture ''10011700000000000'' (JStr ''25.00'') ''UTR: X1 - undefined'',
    Capture ''10011700000000000'' (JStr ''25.00'') ''UTR: X1 - undefined''] \<and>
   length (filter is_capture (calls (then_run
     (payin_webhook CaptureReturns initial_state (success_event ''LIK10011700000000000''))
     (\<lambda>s'. payin_webhook CaptureReturns s' (success_event ''LIK10011700000000000''))))) = 2"
  by (simp add: then_run_def payin_webhook_def verifyFintrixWebhook_def payin_handler_def
      example_defs evaluation)

subsection \<open>C2: an order event delivered twice\<close>

text \<open>
  C2, as amended. For every valid order-creation event (financial status pending, a phone
  in the billing or the shipping address, an order id), every delivery makes exactly one
  create-order call to the gateway, with the refId of the order id and the time of the
  delivery, whether or not the order id already has a refId stored: the handler reads no
  map before it calls. The order id's refId is written only after the gateway has answered
  with a well-formed success, and the write replaces what was stored. So two deliveries of
  the event make two gateway calls.
\<close>

theorem every_valid_delivery_calls_gateway:
  assumes "financial_status order = JStr ''pending''" and "truthy (customerMobile order)"
    and "id_toString order = Some orderId"
  shows "calls (order_handler now gw s order) = [create_order_call order (refId orderId now)] \<and>
         orderIdToRefId (state_after (order_handler now gw s order)) =
           (if well_formed_success gw then (orderIdToRefId s)(orderId \<mapsto> refId orderId now)
            else orderIdToRefId s) \<and>
         calls (then_run (order_handler now gw s order) (\<lambda>s'. order_handler now' gw' s' order)) =
           [create_order_call order (refId orderId now),
            create_order_call order (refId orderId now')]"
  by (simp add: order_handler_valid [OF assms] then_run_def)

text \<open>The theorem at the order of the example.\<close>

theorem every_valid_delivery_calls_gateway_witness:
  "financial_status order_1001 = JStr ''pending'' \<and>
   truthy (customerMobile order_1001) \<and>
   id_toString order_1001 = Some ''1001'' \<and>
   calls (order_handler 1700000000000 gateway_accepts initial_state order_1001) =
     [CreateOrder ''+10000000000'' ''25.00'' ''LIK10011700000000000''
        ''https://shop.example/orders/1001'' ''Shopify order from likone.shop'']"
  using every_valid_delivery_calls_gateway
    [OF order_1001_valid, of 1700000000000 gateway_accepts initial_state]
    order_1001_valid order_1001_call
  by simp

text \<open>
  C2, as claimed, fails: after the intake of order 1001 its refId is stored, and a second
  delivery of the same event five milliseconds later calls the gateway again, with a new
  refId, and overwrites the stored one; the two deliveries make two create-order calls.
\<close>

theorem second_delivery_calls_gateway_again:
  "orderIdToRefId after_intake ''1001'' = Some ''LIK10011700000000000'' \<and>
   calls (order_handler 1700000000005 gateway_accepts after_intake order_1001) =
     [CreateOrder ''+10000000000'' ''25.00'' ''LIK10011700000000005''
        ''https://shop.example/orders/1001'' ''Shopify order from likone.shop''] \<and>
   orderIdToRefId
     (state_after (order_handler 1700000000005 gateway_accepts after_intake order_1001))
     ''1001'' = Some ''LIK10011700000000005'' \<and>
   length (filter is_create_order (calls (then_run
     (order_handler 1700000000000 gateway_accepts initial_state order_1001)
     (\<lambda>s'. order_handler 1700000000005 gateway_accepts s' order_1001)))) = 2"
  by (simp add: after_intake_eq then_run_def order_handler_def example_defs evaluation)

subsection \<open>C3: the order id extracted from a refId\<close>

text \<open>
  C3. The claim: extracting the order id from a generated refId gives back the order id.
  The handler does not: for the order id 1001 at the time 1700000000000 the refId is
  LIK10011700000000000, and the pattern of line 131 extracts 10011700000000000, the order
  id followed by the timestamp, which line 143 then uses as the storefront's order id: the
  success event for the refId stored at the intake of order 1001 issues a capture call
  for order 10011700000000000.
\<close>

theorem extraction_takes_the_timestamp_too:
  "refId ''1001'' 1700000000000 = ''LIK10011700000000000'' \<and>
   orderIdMatch (refId ''1001'' 1700000000000) = Some ''10011700000000000'' \<and>
   orderIdToRefId after_intake ''1001'' = Some (refId ''1001'' 1700000000000) \<and>
   calls (payin_webhook CaptureReturns after_intake
            (success_event (refId ''1001'' 1700000000000))) =
     [Capture ''10011700000000000'' (JStr ''25.00'') ''UTR: X1 - undefined'']"
  by (simp add: after_intake_eq payin_webhook_def verifyFintrixWebhook_def payin_handler_def
      success_event_def evaluation)

subsection \<open>C4: when two refIds are equal\<close>

text \<open>
  C4, as amended. The refId is the prefix, the order id and the decimal timestamp, with
  nothing between them. For two times whose decimal writings have the same length (as
  those of all times from September 2001 to November 2286 do), the refIds of two
  different order ids are not equal, and the refIds of one order id at two different
  milliseconds are not equal.
\<close>

theorem refId_injective:
  assumes "length (string_of_nat t1) = length (string_of_nat t2)"
    and "o1 \<noteq> o2 \<or> t1 \<noteq> t2"
  shows "refId o1 t1 \<noteq> refId o2 t2"
proof
  assume "refId o1 t1 = refId o2 t2"
  then have "o1 @ string_of_nat t1 = o2 @ string_of_nat t2"
    by (simp add: refId_def)
  with assms(1) have "o1 = o2 \<and> string_of_nat t1 = string_of_nat t2"
    by simp
  then have "o1 = o2 \<and> t1 = t2"
    by (auto dest: string_of_nat_inj)
  with assms(2) show False by simp
qed

text \<open>The theorem at two orders, and at one order, a millisecond apart.\<close>

theorem refId_injective_witness:
  "length (string_of_nat 1700000000000) = length (string_of_nat 1700000000001) \<and>
   ''1001'' \<noteq> ''1002'' \<and>
   refId ''1001'' 1700000000000 \<noteq> refId ''1002'' 1700000000001 \<and>
   (1700000000000 :: nat) \<noteq> 1700000000001 \<and>
   refId ''1001'' 1700000000000 \<noteq> refId ''1001'' 1700000000001"
proof -
  have len: "length (string_of_nat 1700000000000) = length (string_of_nat 1700000000001)"
    by (simp add: string_of_nat.simps)
  have orders: "''1001'' \<noteq> ''1002'' \<or> (1700000000000 :: nat) \<noteq> 1700000000001"
    and times: "''1001'' \<noteq> ''1001'' \<or> (1700000000000 :: nat) \<noteq> 1700000000001"
    by simp_all
  show ?thesis
    using len orders refId_injective [OF len orders] refId_injective [OF len times]
    by simp
qed

text \<open>
  C4, as claimed, fails twice. The generator is a function of the order id and the
  millisecond only, so two generations for order 1001 in the millisecond 1700000000000
  give the same refId: two deliveries of the order in that millisecond send the gateway
  the same \<^verbatim>\<open>order_id\<close>. And with no separator, order 1 at the time 1700000000000
  and order 11 at the time 700000000000 share the refId LIK11700000000000.
\<close>

theorem refId_collisions:
  "refId ''1001'' 1700000000000 = refId ''1001'' 1700000000000 \<and>
   calls (then_run
     (order_handler 1700000000000 gateway_accepts initial_state order_1001)
     (\<lambda>s'. order_handler 1700000000000 gateway_accepts s' order_1001)) =
   [CreateOrder ''+10000000000'' ''25.00'' ''LIK10011700000000000''
      ''https://shop.example/orders/1001'' ''Shopify order from likone.shop'',
    CreateOrder ''+10000000000'' ''25.00'' ''LIK10011700000000000''
      ''https://shop.example/orders/1001'' ''Shopify order from likone.shop''] \<and>
   ''1'' \<noteq> ''11'' \<and>
   refId ''1'' 1700000000000 = refId ''11'' 700000000000"
  by (simp add: then_run_def order_handler_def example_defs evaluation)

subsection \<open>C5: a reference the server never issued\<close>

text \<open>
  C5, as amended. The handler resolves the gateway's order identifier by the pattern, not
  through a map. For every payment-result event whose \<^verbatim>\<open>order_id\<close> is a string in
  which no LIK is followed by a digit, the handler responds 400 and issues no capture
  call, whatever the two maps hold, and leaves the maps as they were.
\<close>

theorem unmatched_order_id_is_rejected:
  assumes "order_id req = JStr ref" and "orderIdMatch ref = None"
  shows "status_code (resp (payin_webhook shop s req)) = Some 400 \<and>
         calls (payin_webhook shop s req) = [] \<and>
         state_after (payin_webhook shop s req) = s"
  using assms by (simp add: payin_webhook_def verifyFintrixWebhook_def payin_handler_def)

text \<open>The theorem at a success event for the reference ORD-1001.\<close>

theorem unmatched_order_id_is_rejected_witness:
  "orderIdMatch ''ORD-1001'' = None \<and>
   resp (payin_webhook CaptureReturns initial_state (success_event ''ORD-1001'')) =
     Response 400 (Text ''Invalid ref_id format'') \<and>
   calls (payin_webhook CaptureReturns initial_state (success_event ''ORD-1001'')) = []"
proof -
  have no_match: "orderIdMatch ''ORD-1001'' = None"
    by (simp add: lik_digits_at_def)
  have "order_id (success_event ''ORD-1001'') = JStr ''ORD-1001''"
    by (simp add: success_event_def)
  from unmatched_order_id_is_rejected [OF this no_match, of CaptureReturns initial_state]
  show ?thesis using no_match
    by (simp add: payin_webhook_def verifyFintrixWebhook_def payin_handler_def success_event_def)
qed

text \<open>
  C5, as claimed, fails: on a server that has issued no refId at all, a success event for
  the forged reference LIK999 is answered 200 and issues a capture call for order 999.
\<close>

theorem forged_ref_reaches_capture:
  "''LIK999'' \<notin> ran (orderIdToRefId initial_state) \<and>
   calls (payin_webhook CaptureReturns initial_state (success_event ''LIK999'')) =
     [Capture ''999'' (JStr ''25.00'') ''UTR: X1 - undefined''] \<and>
   resp (payin_webhook CaptureReturns initial_state (success_event ''LIK999'')) =
     Response 200 (Text ''Success'')"
  by (simp add: payin_webhook_def verifyFintrixWebhook_def payin_handler_def example_defs
      evaluation)

subsection \<open>C6: an order event with a wrong signature\<close>

text \<open>
  C6, as amended. In the current version (lines 22 to 38 and 57 to 62), for every
  order-creation request whose body \<^verbatim>\<open>express.raw\<close> has read (a request sent as
  \<^verbatim>\<open>application/json\<close>) and whose signature header is not the HMAC of the raw bytes of
  the body under the shared secret (a missing header included), the server responds 401,
  changes neither map and makes no outbound call, whatever the body would parse to and
  whatever the gateway would answer. A request whose body \<^verbatim>\<open>express.raw\<close> has not read
  does not reach the handler either: neither map changes and no outbound call is made.
\<close>

theorem bad_signature_is_rejected:
  assumes "body_is_buffer req"
    and "hmac_header req \<noteq> Some (hmac secret (raw_body req))"
  shows "shopify_order_webhook hmac parse secret now gw s req =
           \<lparr>state_after = s, calls = [],
            resp = Response 401 (Text ''Webhook verification failed.'')\<rparr> \<and>
         (\<not> body_is_buffer req' \<longrightarrow>
            state_after (shopify_order_webhook hmac parse secret now gw s req') = s \<and>
            calls (shopify_order_webhook hmac parse secret now gw s req') = [])"
  using assms
  by (auto simp: shopify_order_webhook_def verifyShopifyWebhook_def Let_def)

text \<open>
  The theorem at two requests whose body would parse to the order of the example, with
  a header that looks like a signature: one sent as \<^verbatim>\<open>application/json\<close>, one as
  \<^verbatim>\<open>text/plain\<close>. The stand-in for the HMAC is enough, since the theorem holds for
  every function.
\<close>

theorem bad_signature_is_rejected_witness:
  "body_is_buffer tampered_request \<and>
   hmac_header tampered_request \<noteq>
     Some (key_then_bytes ''secret'' (raw_body tampered_request)) \<and>
   shopify_order_webhook key_then_bytes (\<lambda>bytes. Some order_1001) ''secret''
     1700000000000 gateway_accepts initial_state tampered_request =
   \<lparr>state_after = initial_state, calls = [],
    resp = Response 401 (Text ''Webhook verification failed.'')\<rparr> \<and>
   \<not> body_is_buffer plain_text_request \<and>
   state_after (shopify_order_webhook key_then_bytes (\<lambda>bytes. Some order_1001) ''secret''
     1700000000000 gateway_accepts initial_state plain_text_request) = initial_state \<and>
   calls (shopify_order_webhook key_then_bytes (\<lambda>bytes. Some order_1001) ''secret''
     1700000000000 gateway_accepts initial_state plain_text_request) = []"
proof -
  have buffer: "body_is_buffer tampered_request"
    and none: "\<not> body_is_buffer plain_text_request"
    and wrong: "hmac_header tampered_request \<noteq>
      Some (key_then_bytes ''secret'' (raw_body tampered_request))"
    by (simp_all add: request_defs)
  from bad_signature_is_rejected
    [where req = tampered_request and hmac = key_then_bytes and secret = "''secret''"
       and parse = "\<lambda>bytes. Some order_1001" and now = 1700000000000
       and gw = gateway_accepts and s = initial_state and req' = plain_text_request]
  show ?thesis using buffer none wrong by simp
qed

text \<open>
  C6, as claimed, fails twice. In the current version the request sent as
  \<^verbatim>\<open>text/plain\<close>, whose header is not the HMAC of its bytes, leaves \<^verbatim>\<open>req.body\<close>
  without a buffer: \<^verbatim>\<open>update\<close> at line 28 throws and the answer is 500, not 401. In
  the earlier version (lines 224 to 239) the verifier hashes
  \<^verbatim>\<open>JSON.stringify(req.body)\<close>: the request with the added blank, whose header is not
  the HMAC of its bytes, passes the verifier, the gateway is called and the payment URL is
  stored.
\<close>

theorem bad_signature_not_answered_401:
  "hmac_header plain_text_request \<noteq>
     Some (key_then_bytes ''secret'' (raw_body plain_text_request)) \<and>
   resp (shopify_order_webhook key_then_bytes (\<lambda>bytes. Some order_1001) ''secret''
     1700000000000 gateway_accepts initial_state plain_text_request) =
     Response 500 ErrorPage \<and>
   hmac_header respaced_request \<noteq>
     Some (key_then_bytes ''secret'' (raw_body respaced_request)) \<and>
   verifyShopifyWebhook_earlier key_then_bytes (\<lambda>req. order_1001_json) ''secret''
     respaced_request \<and>
   shopify_order_webhook_earlier key_then_bytes (\<lambda>req. order_1001_json)
     (\<lambda>req. Some order_1001) ''secret'' 1700000000000 gateway_accepts initial_state
     respaced_request =
   \<lparr>state_after =
      \<lparr>paymentUrls = [''1001'' \<mapsto> JStr ''https://pay.example/1001''],
       orderIdToRefId = Map.empty\<rparr>,
    calls =
      [CreateOrderRemark2 ''+10000000000'' ''25.00'' ''LIK10011700000000000''
         ''https://shop.example/orders/1001'' ''Shopify order from likone.shop'' []],
    resp = Response 200 (Text ''Order processed'')\<rparr>"
  by (simp add: shopify_order_webhook_def verifyShopifyWebhook_def
      shopify_order_webhook_earlier_def verifyShopifyWebhook_earlier_def
      order_handler_earlier_def request_defs example_defs evaluation)

subsection \<open>C7: the payment link is handed out once\<close>

text \<open>
  C7. For every order id with a stored payment link (a stored value that is truthy, as a
  non-empty URL string is; line 111 takes a stored empty string or \<^verbatim>\<open>undefined\<close> for
  no link), the first request for it returns the link and removes it, and the next request
  returns \<^verbatim>\<open>null\<close>; a request for an order id with nothing stored returns \<^verbatim>\<open>null\<close>.
\<close>

theorem payment_link_is_given_once:
  assumes "paymentUrls s orderId = Some link" and "truthy link"
  shows "resp (get_payment_url s (Some orderId)) = Response 200 (PaymentUrlJson link) \<and>
         paymentUrls (state_after (get_payment_url s (Some orderId))) orderId = None \<and>
         resp (get_payment_url (state_after (get_payment_url s (Some orderId))) (Some orderId)) =
           Response 200 (PaymentUrlJson JNull) \<and>
         (paymentUrls s other = None \<longrightarrow>
            resp (get_payment_url s (Some other)) = Response 200 (PaymentUrlJson JNull))"
  using assms by (simp add: get_payment_url_def)

text \<open>The theorem after the intake of the example, for order 1001 and the unknown order 2002.\<close>

theorem payment_link_is_given_once_witness:
  "paymentUrls after_intake ''1001'' = Some (JStr ''https://pay.example/1001'') \<and>
   truthy (JStr ''https://pay.example/1001'') \<and>
   resp (get_payment_url after_intake (Some ''1001'')) =
     Response 200 (PaymentUrlJson (JStr ''https://pay.example/1001'')) \<and>
   resp (get_payment_url (state_after (get_payment_url after_intake (Some ''1001'')))
     (Some ''1001'')) = Response 200 (PaymentUrlJson JNull) \<and>
   paymentUrls after_intake ''2002'' = None \<and>
   resp (get_payment_url after_intake (Some ''2002'')) = Response 200 (PaymentUrlJson JNull)"
proof -
  have stored: "paymentUrls after_intake ''1001'' = Some (JStr ''https://pay.example/1001'')"
    and absent: "paymentUrls after_intake ''2002'' = None"
    by (simp_all add: after_intake_eq)
  have link: "truthy (JStr ''https://pay.example/1001'')" by simp
  from payment_link_is_given_once [OF stored link, of "''2002''"] stored absent
  show ?thesis by simp
qed

subsection \<open>C8: the gateway's events are not verified\<close>

text \<open>
  C8. For every payment-result request, whatever its headers and its body,
  \<^verbatim>\<open>verifyFintrixWebhook\<close> passes it on: the route is the handler, its response is never
  401, and a request with any headers at all whose body names LIK1001 and SUCCESS, with a
  \<^verbatim>\<open>utr\<close> and a \<^verbatim>\<open>message\<close> that convert to strings, reaches the capture call.
\<close>

theorem fintrix_verification_always_passes:
  "verifyFintrixWebhook req = Next \<and>
   payin_webhook shop s req = payin_handler shop s req \<and>
   status_code (resp (payin_webhook shop s req)) \<noteq> Some 401 \<and>
   calls (payin_webhook shop s
     (req\<lparr>order_id := JStr ''LIK1001'', status := JStr ''SUCCESS'',
          utr := Converts u, message := Converts m\<rparr>)) =
     [Capture ''1001'' (amount req) (''UTR: '' @ js_String u @ '' - '' @ js_String m)]"
proof -
  have "status_code (resp (payin_handler shop s req)) \<noteq> Some 401"
    by (simp add: payin_handler_def split: jsval.split option.split capture_result.split)
  moreover have
    "calls (payin_handler shop s
       (req\<lparr>order_id := JStr ''LIK1001'', status := JStr ''SUCCESS'',
            utr := Converts u, message := Converts m\<rparr>)) =
       [Capture ''1001'' (amount req) (''UTR: '' @ js_String u @ '' - '' @ js_String m)]"
    by (simp add: payin_handler_def capture_call_def lik_digits_at_def isDigit_def
        special_casing_def upper_char_def split: capture_result.split)
  ultimately show ?thesis
    by (simp add: payin_webhook_def verifyFintrixWebhook_def)
qed

text \<open>The theorem at a request that carries a made-up signature header.\<close>

theorem fintrix_verification_always_passes_witness:
  "verifyFintrixWebhook
     \<lparr>headers = [(''X-Fintrix-Signature'', ''forged'')], order_id = JStr ''LIK1001'',
      status = JStr ''SUCCESS'', amount = JStr ''25.00'', utr = Converts JUndefined,
      message = Converts JUndefined\<rparr> = Next \<and>
   calls (payin_webhook CaptureReturns initial_state
     \<lparr>headers = [(''X-Fintrix-Signature'', ''forged'')], order_id = JStr ''LIK1001'',
      status = JStr ''SUCCESS'', amount = JStr ''25.00'', utr = Converts JUndefined,
      message = Converts JUndefined\<rparr>) =
   [Capture ''1001'' (JStr ''25.00'') ''UTR: undefined - undefined'']"
  using fintrix_verification_always_passes
    [of "\<lparr>headers = [(''X-Fintrix-Signature'', ''forged'')], order_id = JStr ''LIK1001'',
      status = JStr ''SUCCESS'', amount = JStr ''25.00'', utr = Converts JUndefined,
      message = Converts JUndefined\<rparr>" CaptureReturns initial_state JUndefined JUndefined]
  by (simp add: payin_webhook_def verifyFintrixWebhook_def)

subsection \<open>C9: fetching the link leaves the refId\<close>

text \<open>
  C9. Fetching a payment link leaves the refId map as it was and changes the link map at
  the requested order id only, so the status route answers the same before and after. In
  particular, once the intake of an order has answered Order processed, a status request
  for it, after any request for a link, calls the gateway with the refId of the intake and
  is not answered 404; and for an order id whose stored refId is not the empty string (no
  refId the generator makes is), the status request is answered 404 exactly when the map
  holds no refId for it.
\<close>

theorem link_consumption_keeps_ref_mapping:
  assumes "resp (order_handler now gw s order) = Response 200 (Text ''Order processed'')"
    and "id_toString order = Some orderId"
    and "orderIdToRefId s k \<noteq> Some []"
  shows "orderIdToRefId (state_after (get_payment_url t q)) = orderIdToRefId t \<and>
         (paymentUrls (state_after (get_payment_url t q)) k' = paymentUrls t k' \<or> q = Some k') \<and>
         calls (check_status g (state_after (get_payment_url t q)) q') =
           calls (check_status g t q') \<and>
         resp (check_status g (state_after (get_payment_url t q)) q') =
           resp (check_status g t q') \<and>
         calls (check_status g
            (state_after (get_payment_url (state_after (order_handler now gw s order)) q))
            (Some orderId)) = [CheckOrderStatus (refId orderId now)] \<and>
         status_code (resp (check_status g
            (state_after (get_payment_url (state_after (order_handler now gw s order)) q))
            (Some orderId))) \<noteq> Some 404 \<and>
         (status_code (resp (check_status g
            (state_after (get_payment_url (state_after (order_handler now gw s order)) q))
            (Some k))) = Some 404) =
         (orderIdToRefId
            (state_after (get_payment_url (state_after (order_handler now gw s order)) q)) k = None)"
proof -
  let ?s1 = "state_after (order_handler now gw s order)"
  let ?s2 = "state_after (get_payment_url ?s1 q)"
  have refs: "orderIdToRefId ?s2 = (orderIdToRefId s)(orderId \<mapsto> refId orderId now)"
    using order_processed_stores_ref [OF assms(1,2)] by (simp add: get_payment_url_frame)
  then have stored: "orderIdToRefId ?s2 orderId = Some (refId orderId now)"
    by simp
  from refs assms(3) have k: "orderIdToRefId ?s2 k \<noteq> Some []"
    by (simp add: refId_nonempty)
  show ?thesis
    using get_payment_url_frame [of t q] get_payment_url_other_links [of t q k']
      check_status_reads_refs_only [OF get_payment_url_frame, of g t q q']
      check_status_found [OF stored refId_nonempty, of g]
      check_status_404_iff [OF k, of g]
    by simp
qed

text \<open>
  The theorem at the example: after the intake of order 1001 and the fetch of its link,
  the status request for 1001 goes to the gateway with the stored refId, and the one for
  the unknown order 2002 is answered 404.
\<close>

theorem link_consumption_keeps_ref_mapping_witness:
  "resp (order_handler 1700000000000 gateway_accepts initial_state order_1001) =
     Response 200 (Text ''Order processed'') \<and>
   id_toString order_1001 = Some ''1001'' \<and>
   orderIdToRefId initial_state ''2002'' \<noteq> Some [] \<and>
   paymentUrls after_take ''1001'' = None \<and>
   orderIdToRefId after_take ''1001'' = Some ''LIK10011700000000000'' \<and>
   calls (check_status (StatusData ''{\"status\":\"PENDING\"}'') after_take (Some ''1001'')) =
     [CheckOrderStatus ''LIK10011700000000000''] \<and>
   resp (check_status (StatusData ''{\"status\":\"PENDING\"}'') after_take (Some ''1001'')) =
     Response 200 (Verbatim ''{\"status\":\"PENDING\"}'') \<and>
   resp (check_status (StatusData ''{\"status\":\"PENDING\"}'') after_take (Some ''2002'')) =
     Response 404 (ErrorJson ''Order not found or not processed yet'')"
proof -
  have unknown: "orderIdToRefId initial_state ''2002'' \<noteq> Some []"
    by (simp add: initial_state_def)
  from link_consumption_keeps_ref_mapping [OF order_1001_processed order_1001_valid(3) unknown,
      of after_intake "Some ''1001''" "''1001''" "StatusData ''{\"status\":\"PENDING\"}''"
         "Some ''1001''"]
  show ?thesis
    using order_1001_processed unknown order_1001_valid(3)
    by (simp add: after_take_eq check_status_def)
qed

subsection \<open>C10: a failed gateway call writes nothing\<close>

text \<open>
  C10. Whenever the gateway's answer to the create-order call is not a well-formed
  success (the call throws, the data cannot be read, \<^verbatim>\<open>status\<close> is not
  \<^verbatim>\<open>true\<close>, or there is no \<^verbatim>\<open>result\<close> to read the URL from), the intake handler and the
  whole route leave both maps as they were; so a map is written only after a well-formed
  success.
\<close>

theorem gateway_failure_changes_no_store:
  assumes "\<not> well_formed_success gw"
  shows "state_after (order_handler now gw s order) = s \<and>
         state_after (shopify_order_webhook hmac parse secret now gw s req) = s"
  using order_handler_failure [OF assms]
  by (simp add: shopify_order_webhook_def split: middleware.split option.split)

text \<open>
  The theorem at the order of the example, once with a transport error on a server that
  already holds an order, once with the gateway declining.
\<close>

theorem gateway_failure_changes_no_store_witness:
  "\<not> well_formed_success AxiosThrows \<and>
   state_after (order_handler 1700000000000 AxiosThrows after_intake order_1001) = after_intake \<and>
   \<not> well_formed_success (AxiosData (Some \<lparr>data_status_true = False, data_result = None\<rparr>)) \<and>
   state_after (order_handler 1700000000000
     (AxiosData (Some \<lparr>data_status_true = False, data_result = None\<rparr>))
     initial_state order_1001) = initial_state"
  using gateway_failure_changes_no_store
    [of AxiosThrows 1700000000000 after_intake order_1001]
    gateway_failure_changes_no_store
    [of "AxiosData (Some \<lparr>data_status_true = False, data_result = None\<rparr>)"
        1700000000000 initial_state order_1001]
  by simp

end
